theory Spec2Isabelle
  imports
    Complex_Main
    "HOL-Library.Char_ord"
    "HOL-Library.List_Lexorder"
    "HOL-Library.Product_Lexorder"
begin

section \<open>Data model (types.ts)\<close>

text \<open>
  The interfaces of the type module become records. Field names carry a one-letter
  prefix of their record, because several interfaces share the names \<open>id\<close>,
  \<open>userId\<close>, \<open>username\<close> and \<open>timestamp\<close>. Optional fields (\<open>bio?\<close>) are options.

  Strings are \<open>string\<close>; keys are compared in the lexicographic order of their
  characters, as IndexedDB compares string keys. Results of \<open>Date.now()\<close> are natural
  numbers (milliseconds). The like and view counters are JavaScript numbers that start
  at 0 and only ever change by 1: they are integers (\<open>likes\<close> may go below zero).
  A video's \<open>duration\<close> is carried around and never computed with.
\<close>

record user =
  u_id :: string
  u_username :: string
  u_email :: string
  u_passwordHash :: string
  u_bio :: "string option"
  u_avatarUrl :: "string option"
  u_createdAt :: nat
  u_lastLogin :: "nat option"

record comment =
  c_id :: string
  c_userId :: string
  c_username :: string
  c_text :: string
  c_timestamp :: nat

record video =
  v_id :: string
  v_userId :: string
  v_username :: string
  v_cloudinaryUrl :: string
  v_thumbnailUrl :: string
  v_caption :: string
  v_tags :: "string list"
  v_duration :: real
  v_resolution :: string
  v_likes :: int
  v_comments :: "comment list"
  v_views :: int
  v_uploadedAt :: nat

datatype log_type =
  Login | Logout | Signup | Upload | Delete | Like | Comment | Search | View

record log =
  l_id :: string
  l_type :: log_type
  l_message :: string
  l_timestamp :: nat
  l_metadata :: "(string \<times> string) list option"

text \<open>What a caller hands to \<open>addLog\<close>: a log without \<open>id\<close> and \<open>timestamp\<close>.\<close>

record log_entry =
  e_type :: log_type
  e_message :: string
  e_metadata :: "(string \<times> string) list option"

datatype theme = Dark | Light

record settings =
  st_theme :: theme
  st_autoplay :: bool
  st_notifications :: bool

record session =
  s_userId :: string
  s_timestamp :: nat

text \<open>A \<open>Blob\<close> (and a \<open>File\<close>, which is one): a MIME type and bytes.\<close>

record blob =
  b_type :: string
  b_bytes :: "nat list"

definition b_size :: "blob \<Rightarrow> nat" where
  "b_size b = length (b_bytes b)"

section \<open>The embedded store (idb.ts)\<close>

text \<open>
  An object store is the list of its records in ascending order of their primary key,
  which is how IndexedDB iterates it. \<open>put\<close> overwrites the record with the same
  key or inserts at the key's place; \<open>add\<close> raises \<open>ConstraintError\<close> when the key
  is present; \<open>delete\<close> and \<open>clear\<close> never raise. A \<open>put\<close> of a blob raises
  \<open>QuotaExceededError\<close> when the browser has no room for it.
\<close>

datatype idb_error = ConstraintError | QuotaExceededError

definition store_get :: "('v \<Rightarrow> string) \<Rightarrow> string \<Rightarrow> 'v list \<Rightarrow> 'v option" where
  "store_get key k s = find (\<lambda>v. key v = k) s"

fun store_put :: "('v \<Rightarrow> string) \<Rightarrow> 'v \<Rightarrow> 'v list \<Rightarrow> 'v list" where
  "store_put key v [] = [v]"
| "store_put key v (x # xs) =
     (if key v = key x then v # xs
      else if key v < key x then v # x # xs
      else x # store_put key v xs)"

definition store_add :: "('v \<Rightarrow> string) \<Rightarrow> 'v \<Rightarrow> 'v list \<Rightarrow> idb_error + 'v list" where
  "store_add key v s =
     (if store_get key (key v) s \<noteq> None then Inl ConstraintError
      else Inr (store_put key v s))"

definition store_delete :: "('v \<Rightarrow> string) \<Rightarrow> string \<Rightarrow> 'v list \<Rightarrow> 'v list" where
  "store_delete key k s = filter (\<lambda>v. key v \<noteq> k) s"

text \<open>
  The six object stores that \<open>getDB\<close> creates. \<open>users\<close>, \<open>videos\<close> and \<open>logs\<close>
  have key path \<open>id\<close>, \<open>settings\<close> has key path \<open>theme\<close>, \<open>session\<close> has key path
  \<open>userId\<close>, and \<open>videoBlobs\<close> has out-of-line keys (the pair's first component).
\<close>

record database =
  users :: "user list"
  videos :: "video list"
  videoBlobs :: "(string \<times> blob) list"
  logs :: "log list"
  settings_store :: "settings list"
  session_store :: "session list"

definition empty_db :: database where
  "empty_db = \<lparr> users = [], videos = [], videoBlobs = [], logs = [],
                settings_store = [], session_store = [] \<rparr>"

subsection \<open>User operations\<close>

text \<open>
  \<open>db.add('users', user)\<close>: the primary key and the two unique indexes
  \<open>by-username\<close> and \<open>by-email\<close> must all be free, or the add raises and stores nothing.
\<close>

definition createUser :: "user \<Rightarrow> database \<Rightarrow> idb_error + database" where
  "createUser user db =
     (if (\<exists>x \<in> set (users db). u_username x = u_username user)
         \<or> (\<exists>x \<in> set (users db). u_email x = u_email user)
      then Inl ConstraintError
      else case store_add u_id user (users db) of
             Inl e \<Rightarrow> Inl e
           | Inr us \<Rightarrow> Inr (db\<lparr>users := us\<rparr>))"

definition getUserByUsername :: "string \<Rightarrow> database \<Rightarrow> user option" where
  "getUserByUsername username db = find (\<lambda>x. u_username x = username) (users db)"

definition getUserById :: "string \<Rightarrow> database \<Rightarrow> user option" where
  "getUserById ident db = store_get u_id ident (users db)"

subsection \<open>Video operations\<close>

definition saveVideo :: "video \<Rightarrow> database \<Rightarrow> idb_error + database" where
  "saveVideo video db =
     (case store_add v_id video (videos db) of
        Inl e \<Rightarrow> Inl e
      | Inr vs \<Rightarrow> Inr (db\<lparr>videos := vs\<rparr>))"

text \<open>
  \<open>db.put('videoBlobs', blob, publicId)\<close>. Whether the browser has room for the blob
  is the environment's: \<open>writable\<close> says so, and without room the put raises and
  stores nothing.
\<close>

definition saveVideoBlob ::
  "bool \<Rightarrow> string \<Rightarrow> blob \<Rightarrow> database \<Rightarrow> idb_error + database" where
  "saveVideoBlob writable publicId b db =
     (if writable
      then Inr (db\<lparr>videoBlobs := store_put fst (publicId, b) (videoBlobs db)\<rparr>)
      else Inl QuotaExceededError)"

definition getVideoBlob :: "string \<Rightarrow> database \<Rightarrow> blob option" where
  "getVideoBlob publicId db = map_option snd (store_get fst publicId (videoBlobs db))"

definition deleteVideoBlob :: "string \<Rightarrow> database \<Rightarrow> database" where
  "deleteVideoBlob publicId db =
     db\<lparr>videoBlobs := store_delete fst publicId (videoBlobs db)\<rparr>"

text \<open>
  \<open>getAllFromIndex('videos', 'by-date')\<close>: every record, ordered by the index key
  \<open>uploadedAt\<close> and, among equal index keys, by primary key.
\<close>

definition getAllVideos :: "database \<Rightarrow> video list" where
  "getAllVideos db = sort_key (\<lambda>v. (v_uploadedAt v, v_id v)) (videos db)"

definition getVideosByUser :: "string \<Rightarrow> database \<Rightarrow> video list" where
  "getVideosByUser userId db =
     sort_key v_id (filter (\<lambda>v. v_userId v = userId) (videos db))"

definition deleteVideo :: "string \<Rightarrow> database \<Rightarrow> database" where
  "deleteVideo ident db = db\<lparr>videos := store_delete v_id ident (videos db)\<rparr>"

definition updateVideo :: "video \<Rightarrow> database \<Rightarrow> database" where
  "updateVideo video db = db\<lparr>videos := store_put v_id video (videos db)\<rparr>"

subsection \<open>Log operations\<close>

text \<open>
  \<open>crypto.randomUUID()\<close> and \<open>Date.now()\<close> are the environment's: every function
  that draws them takes the drawn pair as an argument (a stamp).
\<close>

type_synonym stamp = "string \<times> nat"

definition addLog :: "stamp \<Rightarrow> log_entry \<Rightarrow> database \<Rightarrow> idb_error + database" where
  "addLog st entry db =
     (let fullLog = \<lparr> l_id = fst st, l_type = e_type entry, l_message = e_message entry,
                       l_timestamp = snd st, l_metadata = e_metadata entry \<rparr>
      in case store_add l_id fullLog (logs db) of
           Inl e \<Rightarrow> Inl e
         | Inr ls \<Rightarrow> Inr (db\<lparr>logs := ls\<rparr>))"

definition getAllLogs :: "database \<Rightarrow> log list" where
  "getAllLogs db = sort_key (\<lambda>l. (l_timestamp l, l_id l)) (logs db)"

subsection \<open>Session operations\<close>

definition saveSession :: "nat \<Rightarrow> string \<Rightarrow> database \<Rightarrow> database" where
  "saveSession now userId db =
     db\<lparr>session_store :=
          store_put s_userId \<lparr> s_userId = userId, s_timestamp = now \<rparr> (session_store db)\<rparr>"

definition getSession :: "database \<Rightarrow> session option" where
  "getSession db = (case session_store db of [] \<Rightarrow> None | s # _ \<Rightarrow> Some s)"

definition clearSession :: "database \<Rightarrow> database" where
  "clearSession db = db\<lparr>session_store := []\<rparr>"

section \<open>The auth service (auth.ts)\<close>

text \<open>
  \<open>bcryptjs\<close> is a library: its two functions are parameters. \<open>bc_hash password rounds\<close>
  is the result of \<open>bcrypt.hash\<close> for this call (the salt is drawn inside the library),
  \<open>bc_compare password hash\<close> the result of \<open>bcrypt.compare\<close>.
\<close>

record bcrypt =
  bc_hash :: "string \<Rightarrow> nat \<Rightarrow> string"
  bc_compare :: "string \<Rightarrow> string \<Rightarrow> bool"

record auth_result =
  r_success :: bool
  r_message :: string
  r_user :: "user option"

definition signup ::
  "bcrypt \<Rightarrow> stamp \<Rightarrow> stamp \<Rightarrow> string \<Rightarrow> string \<Rightarrow> string \<Rightarrow> database
     \<Rightarrow> auth_result \<times> database" where
  "signup bc ustamp lstamp username email password db =
     (case getUserByUsername username db of
        Some existingUser \<Rightarrow>
          (\<lparr> r_success = False, r_message = ''Username already exists'', r_user = None \<rparr>, db)
      | None \<Rightarrow>
          (let passwordHash = bc_hash bc password 10;
               user = \<lparr> u_id = fst ustamp, u_username = username, u_email = email,
                        u_passwordHash = passwordHash, u_bio = None, u_avatarUrl = None,
                        u_createdAt = snd ustamp, u_lastLogin = None \<rparr>;
               failed = \<lparr> r_success = False, r_message = ''Failed to create account'',
                          r_user = None \<rparr>
           in case createUser user db of
                Inl e \<Rightarrow> (failed, db)
              | Inr db1 \<Rightarrow>
                  (case addLog lstamp
                          \<lparr> e_type = Signup,
                            e_message = ''User '' @ username @ '' signed up'',
                            e_metadata = None \<rparr> db1 of
                     Inl e \<Rightarrow> (failed, db1)
                   | Inr db2 \<Rightarrow>
                       (\<lparr> r_success = True, r_message = ''Account created successfully'',
                          r_user = Some user \<rparr>, db2))))"

definition login ::
  "bcrypt \<Rightarrow> nat \<Rightarrow> stamp \<Rightarrow> string \<Rightarrow> string \<Rightarrow> database \<Rightarrow> auth_result \<times> database" where
  "login bc now lstamp username password db =
     (case getUserByUsername username db of
        None \<Rightarrow>
          (\<lparr> r_success = False, r_message = ''Invalid username or password'',
             r_user = None \<rparr>, db)
      | Some user \<Rightarrow>
          if \<not> bc_compare bc password (u_passwordHash user) then
            (\<lparr> r_success = False, r_message = ''Invalid username or password'',
               r_user = None \<rparr>, db)
          else
            (let db1 = saveSession now (u_id user) db
             in case addLog lstamp
                       \<lparr> e_type = Login,
                         e_message = ''User '' @ username @ '' logged in'',
                         e_metadata = Some [(''userId'', u_id user)] \<rparr> db1 of
                  Inl e \<Rightarrow>
                    (\<lparr> r_success = False, r_message = ''Login failed'', r_user = None \<rparr>, db1)
                | Inr db2 \<Rightarrow>
                    (\<lparr> r_success = True, r_message = ''Login successful'',
                       r_user = Some user \<rparr>, db2)))"

text \<open>
  \<open>logout\<close> has no \<open>try\<close>: when \<open>addLog\<close> raises, the promise rejects with that
  error and \<open>clearSession\<close> is not reached.
\<close>

definition logout :: "stamp \<Rightarrow> database \<Rightarrow> idb_error option \<times> database" where
  "logout lstamp db =
     (case getSession db of
        None \<Rightarrow> (None, clearSession db)
      | Some session \<Rightarrow>
          (case addLog lstamp
                  \<lparr> e_type = Logout, e_message = ''User logged out'',
                    e_metadata = Some [(''userId'', s_userId session)] \<rparr> db of
             Inl e \<Rightarrow> (Some e, db)
           | Inr db1 \<Rightarrow> (None, clearSession db1)))"

definition getCurrentUser :: "database \<Rightarrow> user option" where
  "getCurrentUser db =
     (case getSession db of
        None \<Rightarrow> None
      | Some session \<Rightarrow> getUserById (s_userId session) db)"

definition isAuthenticated :: "database \<Rightarrow> bool" where
  "isAuthenticated db = (getSession db \<noteq> None)"

subsection \<open>Settings operations\<close>

definition theme_key :: "settings \<Rightarrow> string" where
  "theme_key st = (case st_theme st of Dark \<Rightarrow> ''dark'' | Light \<Rightarrow> ''light'')"

definition saveSettings :: "settings \<Rightarrow> database \<Rightarrow> database" where
  "saveSettings st db = db\<lparr>settings_store := store_put theme_key st (settings_store db)\<rparr>"

definition getSettings :: "database \<Rightarrow> settings option" where
  "getSettings db = (case settings_store db of [] \<Rightarrow> None | st # _ \<Rightarrow> Some st)"

section \<open>String helpers of the JavaScript runtime\<close>

text \<open>
  \<open>String.prototype.startsWith\<close>, \<open>replace\<close> with a string pattern (the first
  occurrence only; the code's only replacement is the empty string), \<open>trim\<close>, \<open>split\<close> on a one-character separator, and the decimal
  rendering of a non-negative integer in a template string. A \<open>char\<close> stands for the
  code unit of the same number, so \<open>trim\<close> removes the white space and line terminators
  below 256: tab, line feed, vertical tab, form feed, carriage return, space and
  no-break space.
\<close>

definition startsWith :: "string \<Rightarrow> string \<Rightarrow> bool" where
  "startsWith p s = (take (length p) s = p)"

fun replace_first :: "string \<Rightarrow> string \<Rightarrow> string \<Rightarrow> string" where
  "replace_first p r [] = (if p = [] then r else [])"
| "replace_first p r (c # cs) =
     (if startsWith p (c # cs) then r @ drop (length p) (c # cs)
      else c # replace_first p r cs)"

definition js_whitespace :: "char \<Rightarrow> bool" where
  "js_whitespace c = (c \<in> {CHR 0x09, CHR 0x0A, CHR 0x0B, CHR 0x0C, CHR 0x0D, CHR 0x20, CHR 0xA0})"

definition trim :: "string \<Rightarrow> string" where
  "trim s = rev (dropWhile js_whitespace (rev (dropWhile js_whitespace s)))"

fun split_on :: "char \<Rightarrow> string \<Rightarrow> string list" where
  "split_on sep [] = [[]]"
| "split_on sep (c # cs) =
     (if c = sep then [] # split_on sep cs
      else case split_on sep cs of
             [] \<Rightarrow> [[c]]
           | part # parts \<Rightarrow> (c # part) # parts)"

definition digit_char :: "nat \<Rightarrow> char" where
  "digit_char d = ''0123456789'' ! d"

function show_nat :: "nat \<Rightarrow> string" where
  "show_nat n = (if n < 10 then [digit_char n] else show_nat (n div 10) @ [digit_char (n mod 10)])"
  by pat_completeness auto
termination
  by (relation "measure id") auto

section \<open>The media ingestion adapter (cloudinary.ts)\<close>

definition CLOUDINARY_CLOUD_NAME :: string where
  "CLOUDINARY_CLOUD_NAME = ''YOUR_CLOUD_NAME''"

definition CLOUDINARY_UPLOAD_PRESET :: string where
  "CLOUDINARY_UPLOAD_PRESET = ''YOUR_UPLOAD_PRESET''"

definition isDemoMode :: bool where
  "isDemoMode = (CLOUDINARY_CLOUD_NAME = ''YOUR_CLOUD_NAME''
                 \<or> CLOUDINARY_UPLOAD_PRESET = ''YOUR_UPLOAD_PRESET'')"

record CloudinaryUploadResponse =
  secure_url :: string
  public_id :: string
  format :: string
  duration :: real
  width :: nat
  height :: nat
  bytes :: nat
  thumbnail_url :: string

text \<open>
  What the browser's video element and canvas make of a file: the duration and pixel
  size of the decoded video, and the JPEG data URL of the frame drawn after the seek to
  0.1 s. \<open>None\<close> stands for a file whose \<open>loadedmetadata\<close> or \<open>seeked\<close> event never
  fires: then the promise of \<open>mockUpload\<close> is never resolved.
\<close>

record media =
  m_duration :: real
  m_videoWidth :: nat
  m_videoHeight :: nat
  m_thumbnail :: string

text \<open>
  The interval callback of \<open>mockUpload\<close>: each tick adds 10 to \<open>progress\<close>, reports it,
  and stops the interval once it has reached 100. The result lists the values reported.
\<close>

function progress_ticks :: "nat \<Rightarrow> nat list" where
  "progress_ticks progress =
     (let p = progress + 10
      in if p \<ge> 100 then [p] else p # progress_ticks p)"
  by pat_completeness auto
termination
  by (relation "measure (\<lambda>progress. 100 - progress)") auto

text \<open>
  \<open>mockUpload\<close> returns the response the promise resolves with (\<open>None\<close>: it never
  resolves), the progress values reported, and the database. The call of
  \<open>saveVideoBlob\<close> stands in a \<open>try\<close> whose \<open>catch\<close> only warns: when the put
  raises, nothing is stored and the promise resolves with the same response.
\<close>

definition mockUpload ::
  "(blob \<Rightarrow> media option) \<Rightarrow> bool \<Rightarrow> nat \<Rightarrow> blob \<Rightarrow> database
     \<Rightarrow> CloudinaryUploadResponse option \<times> nat list \<times> database" where
  "mockUpload probe writable now file db =
     (let reported = progress_ticks 0
      in case probe file of
           None \<Rightarrow> (None, reported, db)
         | Some video \<Rightarrow>
             (let thumbnailUrl = m_thumbnail video;
                  publicId = ''local_'' @ show_nat now;
                  db1 = (case saveVideoBlob writable publicId file db of
                           Inl e \<Rightarrow> db
                         | Inr stored \<Rightarrow> stored);
                  stableUrl = ''local://'' @ publicId
              in (Some \<lparr> secure_url = stableUrl,
                         public_id = publicId,
                         format = (case split_on CHR ''/'' (b_type file) of
                                     _ # f # _ \<Rightarrow> if f = [] then ''mp4'' else f
                                   | _ \<Rightarrow> ''mp4''),
                         duration = m_duration video,
                         width = m_videoWidth video,
                         height = m_videoHeight video,
                         bytes = b_size file,
                         thumbnail_url = thumbnailUrl \<rparr>,
                  reported, db1)))"

text \<open>
  The other branch of \<open>uploadVideoToCloudinary\<close> posts the file to the remote host;
  its outcome is the parameter \<open>remote\<close>.
\<close>

definition uploadVideoToCloudinary ::
  "(blob \<Rightarrow> database \<Rightarrow> CloudinaryUploadResponse option \<times> nat list \<times> database)
     \<Rightarrow> (blob \<Rightarrow> media option) \<Rightarrow> bool \<Rightarrow> nat \<Rightarrow> blob \<Rightarrow> database
     \<Rightarrow> CloudinaryUploadResponse option \<times> nat list \<times> database" where
  "uploadVideoToCloudinary remote probe writable now file db =
     (if isDemoMode then mockUpload probe writable now file db else remote file db)"

section \<open>The watch page (Watch.tsx)\<close>

text \<open>
  The notifications the page raises, named after their titles: \<open>Liked!\<close>,
  \<open>Comment posted!\<close>, \<open>Permission denied\<close>, \<open>Video deleted\<close>, \<open>Delete failed\<close> and
  \<open>Video not available\<close>.
\<close>

datatype toast =
  ToastLiked | ToastCommentPosted | ToastPermissionDenied | ToastVideoDeleted
  | ToastDeleteFailed | ToastVideoNotAvailable

text \<open>
  The component's state: the \<open>useState\<close> cells the handlers read and write, the
  notifications raised so far and the route last navigated to. The signed-in user comes
  from the auth context and is an argument of each handler.
\<close>

record watch =
  w_video :: "video option"
  w_relatedVideos :: "video list"
  w_comment :: string
  w_loading :: bool
  w_liked :: bool
  w_toasts :: "toast list"
  w_navigated :: "string option"

definition initial_watch :: watch where
  "initial_watch = \<lparr> w_video = None, w_relatedVideos = [], w_comment = [], w_loading = True,
                      w_liked = False, w_toasts = [], w_navigated = None \<rparr>"

subsection \<open>Playback URI resolution\<close>

datatype media_src = ObjectUrl blob | Url string

text \<open>
  The retry loop of \<open>resolveLocalUrl\<close>. The blob may be written while the loop waits,
  so \<open>dbAt attempt\<close> is the database as the attempt finds it. The result is the blob
  (if any attempt found it) and the delays waited, in milliseconds.
\<close>

function fetch_blob ::
  "(nat \<Rightarrow> database) \<Rightarrow> string \<Rightarrow> nat \<Rightarrow> nat \<Rightarrow> blob option \<times> nat list" where
  "fetch_blob dbAt publicId maxAttempts attempt =
     (if attempt \<le> maxAttempts then
        (case getVideoBlob publicId (dbAt attempt) of
           Some b \<Rightarrow> (Some b, [])
         | None \<Rightarrow>
             (case fetch_blob dbAt publicId maxAttempts (attempt + 1) of
                (b, waits) \<Rightarrow> (b, 250 * attempt # waits)))
      else (None, []))"
  by pat_completeness auto
termination
  by (relation "measure (\<lambda>(dbAt, publicId, maxAttempts, attempt). maxAttempts + 1 - attempt)") auto

text \<open>
  What one run of \<open>resolveLocalUrl\<close> does: the object URL it creates (standing for its
  blob), the value it assigns to the video element's \<open>src\<close> (none when the element is
  not mounted), the value it passes to \<open>setVideoError\<close>, the notification it raises and
  the delays it waited.
\<close>

record resolution =
  rr_objectUrl :: "blob option"
  rr_src :: "media_src option"
  rr_videoError :: "bool option"
  rr_toast :: "toast option"
  rr_waits :: "nat list"

definition resolveLocalUrl :: "(nat \<Rightarrow> database) \<Rightarrow> bool \<Rightarrow> video option \<Rightarrow> resolution" where
  "resolveLocalUrl dbAt mounted video =
     (case video of
        None \<Rightarrow> \<lparr> rr_objectUrl = None, rr_src = None, rr_videoError = None,
                   rr_toast = None, rr_waits = [] \<rparr>
      | Some v \<Rightarrow>
          if startsWith ''local://'' (v_cloudinaryUrl v) then
            (let publicId = replace_first ''local://'' [] (v_cloudinaryUrl v);
                 maxAttempts = 3
             in case fetch_blob dbAt publicId maxAttempts 1 of
                  (Some b, waits) \<Rightarrow>
                    \<lparr> rr_objectUrl = Some b,
                      rr_src = (if mounted then Some (ObjectUrl b) else None),
                      rr_videoError = Some False, rr_toast = None, rr_waits = waits \<rparr>
                | (None, waits) \<Rightarrow>
                    \<lparr> rr_objectUrl = None, rr_src = None, rr_videoError = Some True,
                      rr_toast = Some ToastVideoNotAvailable, rr_waits = waits \<rparr>)
          else
            \<lparr> rr_objectUrl = None,
              rr_src = (if mounted then Some (Url (v_cloudinaryUrl v)) else None),
              rr_videoError = None, rr_toast = None, rr_waits = [] \<rparr>)"

subsection \<open>Handlers\<close>

text \<open>
  \<open>loadVideo\<close> catches what its body raises: when \<open>addLog\<close> raises, the view is
  already stored and only the state updates after it are skipped.
\<close>

definition loadVideo :: "string option \<Rightarrow> stamp \<Rightarrow> watch \<times> database \<Rightarrow> watch \<times> database" where
  "loadVideo videoId lstamp wd =
     (case wd of (w, db) \<Rightarrow>
        (case videoId of
           None \<Rightarrow> (w, db)
         | Some vid \<Rightarrow>
             if vid = [] then (w, db)
             else
               (let allVideos = getAllVideos db
                in case find (\<lambda>v. v_id v = vid) allVideos of
                     None \<Rightarrow> (w\<lparr>w_loading := False\<rparr>, db)
                   | Some currentVideo \<Rightarrow>
                       (let updatedVideo = currentVideo\<lparr>v_views := v_views currentVideo + 1\<rparr>;
                            db1 = updateVideo updatedVideo db
                        in case addLog lstamp
                                  \<lparr> e_type = View,
                                    e_message = ''Watched video: '' @ v_caption currentVideo,
                                    e_metadata = Some [(''videoId'', vid)] \<rparr> db1 of
                             Inl e \<Rightarrow> (w\<lparr>w_loading := False\<rparr>, db1)
                           | Inr db2 \<Rightarrow>
                               (w\<lparr>w_video := Some updatedVideo,
                                  w_relatedVideos :=
                                    take 6 (filter (\<lambda>v. v_id v \<noteq> vid) allVideos),
                                  w_loading := False\<rparr>, db2)))))"

text \<open>
  \<open>handleLike\<close> and \<open>handleComment\<close> have no \<open>try\<close>: the first component of their
  result is the error their promise rejects with, if any. The record is stored before
  the log is added, so a rejection leaves the stored record updated and the state as it
  was.
\<close>

definition handleLike ::
  "user option \<Rightarrow> stamp \<Rightarrow> watch \<times> database \<Rightarrow> idb_error option \<times> watch \<times> database" where
  "handleLike user lstamp wd =
     (case wd of (w, db) \<Rightarrow>
        (case (w_video w, user) of
           (Some video, Some u) \<Rightarrow>
             (let liked = w_liked w;
                  updatedVideo =
                    video\<lparr>v_likes := (if liked then v_likes video - 1 else v_likes video + 1)\<rparr>;
                  db1 = updateVideo updatedVideo db
              in case addLog lstamp
                        \<lparr> e_type = Like,
                          e_message = (if liked then ''Unliked'' else ''Liked'')
                                        @ '' video: '' @ v_caption video,
                          e_metadata = Some [(''videoId'', v_id video)] \<rparr> db1 of
                   Inl e \<Rightarrow> (Some e, w, db1)
                 | Inr db2 \<Rightarrow>
                     (None,
                      w\<lparr>w_video := Some updatedVideo, w_liked := \<not> liked,
                        w_toasts := w_toasts w @ (if \<not> liked then [ToastLiked] else [])\<rparr>,
                      db2))
         | _ \<Rightarrow> (None, w, db)))"

definition handleComment ::
  "user option \<Rightarrow> stamp \<Rightarrow> stamp \<Rightarrow> watch \<times> database
     \<Rightarrow> idb_error option \<times> watch \<times> database" where
  "handleComment user cstamp lstamp wd =
     (case wd of (w, db) \<Rightarrow>
        (case (w_video w, user) of
           (Some video, Some u) \<Rightarrow>
             if trim (w_comment w) = [] then (None, w, db)
             else
               (let newComment = \<lparr> c_id = fst cstamp, c_userId = u_id u,
                                    c_username = u_username u,
                                    c_text = trim (w_comment w),
                                    c_timestamp = snd cstamp \<rparr>;
                    updatedVideo = video\<lparr>v_comments := v_comments video @ [newComment]\<rparr>;
                    db1 = updateVideo updatedVideo db
                in case addLog lstamp
                          \<lparr> e_type = Comment,
                            e_message = ''Commented on video: '' @ v_caption video,
                            e_metadata = Some [(''videoId'', v_id video)] \<rparr> db1 of
                     Inl e \<Rightarrow> (Some e, w, db1)
                   | Inr db2 \<Rightarrow>
                       (None,
                        w\<lparr>w_video := Some updatedVideo, w_comment := [],
                          w_toasts := w_toasts w @ [ToastCommentPosted]\<rparr>,
                        db2))
         | _ \<Rightarrow> (None, w, db)))"

text \<open>
  \<open>handleDelete\<close>: \<open>ok\<close> is the answer to \<open>window.confirm\<close>. Everything after the
  confirmation runs inside \<open>try\<close>, so a raising \<open>addLog\<close> ends in the
  \<open>Delete failed\<close> notification, with the record already deleted.
\<close>

definition handleDelete ::
  "user option \<Rightarrow> bool \<Rightarrow> stamp \<Rightarrow> watch \<times> database \<Rightarrow> watch \<times> database" where
  "handleDelete user ok lstamp wd =
     (case wd of (w, db) \<Rightarrow>
        (case (w_video w, user) of
           (Some video, Some u) \<Rightarrow>
             if u_id u \<noteq> v_userId video then
               (w\<lparr>w_toasts := w_toasts w @ [ToastPermissionDenied]\<rparr>, db)
             else if \<not> ok then (w, db)
             else
               (let db1 = (if startsWith ''local://'' (v_cloudinaryUrl video)
                           then deleteVideoBlob
                                  (replace_first ''local://'' [] (v_cloudinaryUrl video)) db
                           else db);
                    db2 = deleteVideo (v_id video) db1
                in case addLog lstamp
                          \<lparr> e_type = Delete,
                            e_message = ''Deleted video: '' @ v_caption video,
                            e_metadata = Some [(''videoId'', v_id video)] \<rparr> db2 of
                     Inl e \<Rightarrow> (w\<lparr>w_toasts := w_toasts w @ [ToastDeleteFailed]\<rparr>, db2)
                   | Inr db3 \<Rightarrow>
                       (w\<lparr>w_toasts := w_toasts w @ [ToastVideoDeleted],
                          w_navigated := Some ''/feed''\<rparr>, db3))
         | _ \<Rightarrow> (w, db)))"

declare fetch_blob.simps [simp del]
declare progress_ticks.simps [simp del]
declare show_nat.simps [simp del]

section \<open>Example data\<close>

text \<open>
  A stand-in for the hashing library, two users, a file, a locally stored video and a
  watch page showing it: concrete values on which the operations are run.
\<close>

definition demo_bcrypt :: bcrypt where
  "demo_bcrypt = \<lparr> bc_hash = (\<lambda>password rounds. ''$2a$'' @ password),
                    bc_compare = (\<lambda>password hash. hash = ''$2a$'' @ password) \<rparr>"

definition alice :: user where
  "alice = \<lparr> u_id = ''u-alice'', u_username = ''alice'', u_email = ''a@x.com'',
             u_passwordHash = ''$2a$pw1'', u_bio = None, u_avatarUrl = None,
             u_createdAt = 1000, u_lastLogin = None \<rparr>"

definition alice_db :: database where
  "alice_db = snd (signup demo_bcrypt (''u-alice'', 1000) (''log-1'', 1001)
                     ''alice'' ''a@x.com'' ''pw1'' empty_db)"

definition bob :: user where
  "bob = \<lparr> u_id = ''u-bob'', u_username = ''bob'', u_email = ''b@y.com'',
           u_passwordHash = ''$2a$pw2'', u_bio = None, u_avatarUrl = None,
           u_createdAt = 1500, u_lastLogin = None \<rparr>"

definition two_users_db :: database where
  "two_users_db = snd (signup demo_bcrypt (''u-bob'', 1500) (''log-2'', 1501)
                     ''bob'' ''b@y.com'' ''pw2'' alice_db)"

definition demo_file :: blob where
  "demo_file = \<lparr> b_type = ''video/mp4'', b_bytes = [0, 0, 0, 24, 102, 116, 121, 112] \<rparr>"

definition demo_video :: video where
  "demo_video = \<lparr> v_id = ''vid-1'', v_userId = ''u-alice'', v_username = ''alice'',
                  v_cloudinaryUrl = ''local://local_1700'',
                  v_thumbnailUrl = ''data:image/jpeg;base64,AAAA'', v_caption = ''Hi'',
                  v_tags = [''fun''], v_duration = 12, v_resolution = ''640x360'',
                  v_likes = 0, v_comments = [], v_views = 0, v_uploadedAt = 1700 \<rparr>"

definition video_db :: database where
  "video_db = alice_db\<lparr> videos := [demo_video], videoBlobs := [(''local_1700'', demo_file)] \<rparr>"

definition watching :: watch where
  "watching = initial_watch\<lparr> w_video := Some demo_video, w_loading := False \<rparr>"

definition demo_media :: media where
  "demo_media = \<lparr> m_duration = 12, m_videoWidth = 640, m_videoHeight = 360,
                  m_thumbnail = ''data:image/jpeg;base64,AAAA'' \<rparr>"

definition remote_video :: video where
  "remote_video = demo_video\<lparr> v_id := ''vid-2'',
       v_cloudinaryUrl := ''https://res.cloudinary.com/demo/video/upload/clip.mp4'' \<rparr>"

section \<open>Facts about the store and the helpers\<close>

lemma store_get_put_same: "store_get key (key v) (store_put key v s) = Some v"
  by (induction s) (auto simp: store_get_def)

lemma store_get_put_other:
  "k \<noteq> key v \<Longrightarrow> store_get key k (store_put key v s) = store_get key k s"
  by (induction s) (auto simp: store_get_def)

lemma find_unique:
  "distinct (map key xs) \<Longrightarrow>
     (find (\<lambda>x. key x = k) xs = Some v) = (v \<in> set xs \<and> key v = k)"
  by (induction xs) (auto simp: rev_image_eqI)

lemma find_sort_key:
  assumes "distinct (map key xs)"
  shows "find (\<lambda>x. key x = k) (sort_key f xs) = find (\<lambda>x. key x = k) xs"
proof (cases "find (\<lambda>x. key x = k) xs")
  case None
  then have "find (\<lambda>x. key x = k) (sort_key f xs) = None"
    by (simp add: find_None_iff)
  with None show ?thesis by simp
next
  case (Some v)
  have d: "distinct (map key (sort_key f xs))"
    using assms by (metis distinct_map distinct_sort set_sort)
  from Some have "v \<in> set xs \<and> key v = k"
    using find_unique[OF assms] by blast
  then have "find (\<lambda>x. key x = k) (sort_key f xs) = Some v"
    using find_unique[OF d, of k v] by simp
  with Some show ?thesis by simp
qed

text \<open>
  A store stays in strictly ascending key order under \<open>put\<close>, \<open>add\<close> and
  \<open>delete\<close>, so its keys are distinct: the videos of any database built from the empty
  one by the operations above have distinct ids.
\<close>

lemma set_store_put: "set (map key (store_put key v s)) \<subseteq> insert (key v) (set (map key s))"
  by (induction s) auto

lemma store_put_sorted:
  "sorted_wrt (<) (map key s) \<Longrightarrow> sorted_wrt (<) (map key (store_put key v s))"
proof (induction s)
  case Nil
  then show ?case by simp
next
  case (Cons x xs)
  have "key x < k" if "k \<in> set (map key (store_put key v xs))" "key x < key v" for k
    using that Cons.prems set_store_put[of key v xs] by auto
  with Cons show ?case by (auto simp: not_less)
qed

lemma store_delete_sorted:
  "sorted_wrt (<) (map key s) \<Longrightarrow> sorted_wrt (<) (map key (store_delete key k s))"
  by (induction s) (auto simp: store_delete_def)

lemma store_sorted_distinct:
  "sorted_wrt (<) (map (key :: 'v \<Rightarrow> string) s) \<Longrightarrow> distinct (map key s)"
  by (induction s) auto

lemma updateVideo_sorted:
  "sorted_wrt (<) (map v_id (videos db)) \<Longrightarrow> sorted_wrt (<) (map v_id (videos (updateVideo v db)))"
  by (simp add: updateVideo_def store_put_sorted)

lemma saveVideo_sorted:
  "sorted_wrt (<) (map v_id (videos db)) \<Longrightarrow> saveVideo v db = Inr db' \<Longrightarrow>
     sorted_wrt (<) (map v_id (videos db'))"
  by (auto simp: saveVideo_def store_add_def store_put_sorted split: if_splits)

lemma deleteVideo_sorted:
  "sorted_wrt (<) (map v_id (videos db)) \<Longrightarrow> sorted_wrt (<) (map v_id (videos (deleteVideo k db)))"
  by (simp add: deleteVideo_def store_delete_sorted)

lemma alice_db_eq:
  "alice_db = \<lparr> users = [alice], videos = [], videoBlobs = [],
                logs = [\<lparr> l_id = ''log-1'', l_type = Signup,
                          l_message = ''User alice signed up'', l_timestamp = 1001,
                          l_metadata = None \<rparr>],
                settings_store = [], session_store = [] \<rparr>"
  by (simp add: alice_db_def alice_def signup_def getUserByUsername_def empty_db_def
      createUser_def store_add_def store_get_def addLog_def demo_bcrypt_def Let_def)

lemma two_users_db_eq:
  "two_users_db = alice_db\<lparr> users := [alice, bob],
       logs := logs alice_db @ [\<lparr> l_id = ''log-2'', l_type = Signup,
                          l_message = ''User bob signed up'', l_timestamp = 1501,
                          l_metadata = None \<rparr>] \<rparr>"
  by (simp add: two_users_db_def alice_db_eq alice_def bob_def signup_def getUserByUsername_def
      createUser_def store_add_def store_get_def addLog_def demo_bcrypt_def Let_def)

lemma addLog_users: "addLog st e db = Inr db' \<Longrightarrow> users db' = users db"
  by (auto simp: addLog_def Let_def split: sum.splits)

lemma createUser_Inr:
  "createUser u db = Inr db' \<Longrightarrow>
     store_get u_id (u_id u) (users db) = None \<and> users db' = store_put u_id u (users db)"
  by (auto simp: createUser_def store_add_def split: if_splits sum.splits)

lemma updateVideo_get_same:
  "store_get v_id (v_id v) (videos (updateVideo v db)) = Some v"
  by (simp add: updateVideo_def store_get_put_same)

lemma updateVideo_get_other:
  "k \<noteq> v_id v \<Longrightarrow> store_get v_id k (videos (updateVideo v db)) = store_get v_id k (videos db)"
  by (simp add: updateVideo_def store_get_put_other)

lemma addLog_videos: "addLog st e db = Inr db' \<Longrightarrow> videos db' = videos db"
  by (auto simp: addLog_def Let_def split: sum.splits)

lemma addLog_fresh:
  "store_get l_id (fst st) (logs db) = None \<Longrightarrow> \<exists>db'. addLog st e db = Inr db'"
  by (simp add: addLog_def Let_def store_add_def)

lemma updateVideo_logs: "logs (updateVideo v db) = logs db"
  by (simp add: updateVideo_def)

lemma replace_first_prefix:
  "startsWith p s \<Longrightarrow> replace_first p r s = r @ drop (length p) s"
  by (cases s) (auto simp: startsWith_def)

lemma startsWith_append: "startsWith p (p @ s)"
  by (simp add: startsWith_def)

lemma fetch_blob_3:
  "fetch_blob dbAt publicId 3 1 =
     (case getVideoBlob publicId (dbAt 1) of
        Some b \<Rightarrow> (Some b, [])
      | None \<Rightarrow>
          (case getVideoBlob publicId (dbAt 2) of
             Some b \<Rightarrow> (Some b, [250])
           | None \<Rightarrow>
               (case getVideoBlob publicId (dbAt 3) of
                  Some b \<Rightarrow> (Some b, [250, 500])
                | None \<Rightarrow> (None, [250, 500, 750]))))"
proof -
  have f4: "fetch_blob dbAt publicId 3 4 = (None, [])"
    by (subst fetch_blob.simps) simp
  have f3: "fetch_blob dbAt publicId 3 3 =
              (case getVideoBlob publicId (dbAt 3) of
                 Some b \<Rightarrow> (Some b, []) | None \<Rightarrow> (None, [750]))"
    by (subst fetch_blob.simps) (simp add: f4 split: option.splits)
  have f2: "fetch_blob dbAt publicId 3 2 =
              (case getVideoBlob publicId (dbAt 2) of
                 Some b \<Rightarrow> (Some b, [])
               | None \<Rightarrow>
                   (case getVideoBlob publicId (dbAt 3) of
                      Some b \<Rightarrow> (Some b, [500]) | None \<Rightarrow> (None, [500, 750])))"
    by (subst fetch_blob.simps) (simp add: f3 split: option.splits)
  have "(1::nat) + 1 = 2" by simp
  then show ?thesis
    by (subst fetch_blob.simps) (simp add: f2 split: option.splits del: One_nat_def)
qed

lemma getVideoBlob_saved:
  "saveVideoBlob True k b db = Inr db' \<Longrightarrow> getVideoBlob k db' = Some b"
  using store_get_put_same[of fst "(k, b)" "videoBlobs db"]
  by (auto simp: getVideoBlob_def saveVideoBlob_def)

lemma isDemoMode_holds: "isDemoMode"
  by (simp add: isDemoMode_def CLOUDINARY_CLOUD_NAME_def)

lemma progress_ticks_0: "progress_ticks 0 = [10, 20, 30, 40, 50, 60, 70, 80, 90, 100]"
  by (simp add: Let_def progress_ticks.simps)

lemma show_nat_1700: "show_nat 1700 = ''1700''"
  by (simp add: show_nat.simps digit_char_def)

lemma trim_hello: "trim ''  hello '' = ''hello''"
  by (simp add: trim_def js_whitespace_def)

lemma trim_blank: "trim [CHR 0x20, CHR 0x09, CHR 0x0A] = []"
  by (simp add: trim_def js_whitespace_def)

section \<open>Sessions\<close>

text \<open>
  C1. The session store is read as holding one record: \<open>getSession\<close> returns the first
  one. Its key path is \<open>userId\<close>, so \<open>saveSession\<close> overwrites only a session of the
  same user. Starting from the empty database, after alice and bob have signed up, a
  login of alice followed by a login of bob (no logout between) leaves two session
  records; the second login returns bob, and \<open>getCurrentUser\<close> then answers alice.
\<close>

theorem second_login_keeps_first_session:
  "session_store
     (snd (login demo_bcrypt 3000 (''log-4'', 3001) ''bob'' ''pw2''
        (snd (login demo_bcrypt 2000 (''log-3'', 2001) ''alice'' ''pw1'' two_users_db)))) =
     [\<lparr> s_userId = ''u-alice'', s_timestamp = 2000 \<rparr>,
      \<lparr> s_userId = ''u-bob'', s_timestamp = 3000 \<rparr>]
   \<and> r_user (fst (login demo_bcrypt 3000 (''log-4'', 3001) ''bob'' ''pw2''
        (snd (login demo_bcrypt 2000 (''log-3'', 2001) ''alice'' ''pw1'' two_users_db)))) = Some bob
   \<and> getCurrentUser
     (snd (login demo_bcrypt 3000 (''log-4'', 3001) ''bob'' ''pw2''
        (snd (login demo_bcrypt 2000 (''log-3'', 2001) ''alice'' ''pw1'' two_users_db)))) = Some alice"
  by (simp add: two_users_db_eq alice_db_eq alice_def bob_def login_def getUserByUsername_def
      saveSession_def getCurrentUser_def getSession_def getUserById_def
      store_add_def store_get_def addLog_def demo_bcrypt_def Let_def)

section \<open>Signup\<close>

text \<open>
  C2, as the code has it. A successful \<open>signup\<close> returns the user record it has just
  created, with the id and creation time drawn for it, the given username and email and
  the hash of the password; no user had that id before, and afterwards the record
  stored under that id is the returned one, password hash included.
\<close>

theorem signup_returns_stored_user:
  assumes "signup bc ustamp lstamp username email password db = (r, db')"
    and "r_success r"
  shows "r_user r = Some \<lparr> u_id = fst ustamp, u_username = username, u_email = email,
                           u_passwordHash = bc_hash bc password 10, u_bio = None,
                           u_avatarUrl = None, u_createdAt = snd ustamp,
                           u_lastLogin = None \<rparr>
         \<and> getUserById (fst ustamp) db = None
         \<and> getUserById (fst ustamp) db' = r_user r"
proof -
  let ?u = "\<lparr> u_id = fst ustamp, u_username = username, u_email = email,
              u_passwordHash = bc_hash bc password 10, u_bio = None,
              u_avatarUrl = None, u_createdAt = snd ustamp, u_lastLogin = None \<rparr>"
  from assms obtain db1 where
    c: "createUser ?u db = Inr db1" and
    l: "addLog lstamp \<lparr> e_type = Signup, e_message = ''User '' @ username @ '' signed up'',
                        e_metadata = None \<rparr> db1 = Inr db'" and
    r: "r_user r = Some ?u"
    by (auto simp: signup_def Let_def split: option.splits sum.splits)
  from createUser_Inr[OF c] have
    fresh: "store_get u_id (fst ustamp) (users db) = None" and
    us: "users db1 = store_put u_id ?u (users db)"
    by simp_all
  have "store_get u_id (fst ustamp) (users db') = Some ?u"
    using store_get_put_same[of u_id ?u "users db"] addLog_users[OF l] us by simp
  with fresh r show ?thesis by (simp add: getUserById_def)
qed

theorem signup_returns_stored_user_witness:
  "r_success (fst (signup demo_bcrypt (''u-bob'', 1500) (''log-2'', 1501)
                     ''bob'' ''b@y.com'' ''pw2'' alice_db))
   \<and> r_user (fst (signup demo_bcrypt (''u-bob'', 1500) (''log-2'', 1501)
                     ''bob'' ''b@y.com'' ''pw2'' alice_db)) = Some bob
   \<and> getUserById ''u-bob'' alice_db = None
   \<and> getUserById ''u-bob'' two_users_db = Some bob"
proof -
  obtain r db' where s: "signup demo_bcrypt (''u-bob'', 1500) (''log-2'', 1501)
                     ''bob'' ''b@y.com'' ''pw2'' alice_db = (r, db')"
    by (cases "signup demo_bcrypt (''u-bob'', 1500) (''log-2'', 1501)
                     ''bob'' ''b@y.com'' ''pw2'' alice_db")
  have ok: "r_success r"
    using s by (auto simp: alice_db_eq alice_def signup_def getUserByUsername_def
      createUser_def store_add_def store_get_def addLog_def demo_bcrypt_def Let_def)
  have d: "db' = two_users_db" using s by (simp add: two_users_db_def)
  show ?thesis
    using signup_returns_stored_user[OF s ok] s ok d
    by (simp add: bob_def demo_bcrypt_def)
qed

text \<open>
  C2 as stated fails: the user that \<open>signup\<close> returns to its caller carries the
  password hash, the same one that is stored.
\<close>

theorem signup_exposes_hash_counterexample:
  "r_user (fst (signup demo_bcrypt (''u-alice'', 1000) (''log-1'', 1001)
                  ''alice'' ''a@x.com'' ''pw1'' empty_db)) = Some alice
   \<and> getUserById ''u-alice'' (snd (signup demo_bcrypt (''u-alice'', 1000) (''log-1'', 1001)
                  ''alice'' ''a@x.com'' ''pw1'' empty_db)) = Some alice
   \<and> u_passwordHash alice = bc_hash demo_bcrypt ''pw1'' 10"
  by (simp add: alice_def signup_def getUserByUsername_def empty_db_def getUserById_def
      createUser_def store_add_def store_get_def addLog_def demo_bcrypt_def Let_def)

text \<open>
  C4, as the code has it. A \<open>signup\<close> with a taken username fails with
  \<open>Username already exists\<close>. A \<open>signup\<close> with a free username and a taken email
  fails with \<open>Failed to create account\<close>: the add raises on the unique email index and
  the handler of \<open>signup\<close> turns that into the general failure. Neither changes the
  database, so no user record is created.
\<close>

theorem signup_collision:
  "(getUserByUsername username db \<noteq> None \<longrightarrow>
      signup bc ustamp lstamp username email password db =
        (\<lparr> r_success = False, r_message = ''Username already exists'', r_user = None \<rparr>, db))
   \<and> (getUserByUsername username db = None \<and> (\<exists>x \<in> set (users db). u_email x = email) \<longrightarrow>
      signup bc ustamp lstamp username email password db =
        (\<lparr> r_success = False, r_message = ''Failed to create account'', r_user = None \<rparr>, db))"
  by (auto simp: signup_def createUser_def Let_def)

theorem signup_collision_witness:
  "getUserByUsername ''alice'' alice_db \<noteq> None
   \<and> signup demo_bcrypt (''u-2'', 1500) (''log-2'', 1501) ''alice'' ''b@y.com'' ''pw2'' alice_db =
        (\<lparr> r_success = False, r_message = ''Username already exists'', r_user = None \<rparr>,
         alice_db)
   \<and> getUserByUsername ''bob'' alice_db = None
   \<and> u_email alice = ''a@x.com''
   \<and> signup demo_bcrypt (''u-2'', 1500) (''log-2'', 1501) ''bob'' ''a@x.com'' ''pw2'' alice_db =
        (\<lparr> r_success = False, r_message = ''Failed to create account'', r_user = None \<rparr>,
         alice_db)"
proof -
  have a: "getUserByUsername ''alice'' alice_db \<noteq> None"
    by (simp add: getUserByUsername_def alice_db_eq alice_def)
  have b: "getUserByUsername ''bob'' alice_db = None"
    by (simp add: getUserByUsername_def alice_db_eq alice_def)
  have c: "\<exists>x \<in> set (users alice_db). u_email x = ''a@x.com''"
    by (simp add: alice_db_eq alice_def)
  have e: "u_email alice = ''a@x.com''" by (simp add: alice_def)
  from signup_collision[of "''alice''" alice_db demo_bcrypt "(''u-2'', 1500)" "(''log-2'', 1501)" "''b@y.com''" "''pw2''"]
    signup_collision[of "''bob''" alice_db demo_bcrypt "(''u-2'', 1500)" "(''log-2'', 1501)" "''a@x.com''" "''pw2''"]
    a b c e
  show ?thesis by blast
qed

text \<open>
  C4 as stated fails for the email: bob signs up with alice's email and a free username,
  and the result is the general failure, not an already-exists result.
\<close>

theorem signup_email_collision_counterexample:
  "getUserByUsername ''bob'' alice_db = None
   \<and> getUserByUsername ''alice'' alice_db = Some alice
   \<and> u_email alice = ''a@x.com''
   \<and> signup demo_bcrypt (''u-bob'', 1500) (''log-2'', 1501) ''bob'' ''a@x.com'' ''pw2'' alice_db =
        (\<lparr> r_success = False, r_message = ''Failed to create account'', r_user = None \<rparr>,
         alice_db)"
  by (simp add: alice_db_eq alice_def signup_def getUserByUsername_def
      createUser_def demo_bcrypt_def Let_def)

section \<open>Login failures\<close>

text \<open>
  C3. A login whose username matches no stored user, and a login whose password does not
  verify against the stored user's hash, fail alike: both return no success, the message
  \<open>Invalid username or password\<close> and no user, and both leave the database as it was.
\<close>

theorem login_invalid_credentials:
  assumes "getUserByUsername unknown db = None"
    and "getUserByUsername username db = Some u"
    and "\<not> bc_compare bc password (u_passwordHash u)"
  shows "login bc now lstamp unknown anyPassword db =
           (\<lparr> r_success = False, r_message = ''Invalid username or password'',
              r_user = None \<rparr>, db)
         \<and> login bc now' lstamp' username password db =
           (\<lparr> r_success = False, r_message = ''Invalid username or password'',
              r_user = None \<rparr>, db)"
  using assms by (simp add: login_def)


theorem login_invalid_credentials_witness:
  "getUserByUsername ''mallory'' alice_db = None
   \<and> getUserByUsername ''alice'' alice_db = Some alice
   \<and> \<not> bc_compare demo_bcrypt ''wrong'' (u_passwordHash alice)
   \<and> login demo_bcrypt 2000 (''log-2'', 2001) ''mallory'' ''pw1'' alice_db =
       (\<lparr> r_success = False, r_message = ''Invalid username or password'', r_user = None \<rparr>,
        alice_db)
   \<and> login demo_bcrypt 2000 (''log-2'', 2001) ''alice'' ''wrong'' alice_db =
       (\<lparr> r_success = False, r_message = ''Invalid username or password'', r_user = None \<rparr>,
        alice_db)"
proof -
  have a: "getUserByUsername ''mallory'' alice_db = None"
    by (simp add: getUserByUsername_def alice_db_eq alice_def)
  have b: "getUserByUsername ''alice'' alice_db = Some alice"
    by (simp add: getUserByUsername_def alice_db_eq alice_def)
  have c: "\<not> bc_compare demo_bcrypt ''wrong'' (u_passwordHash alice)"
    by (simp add: alice_def demo_bcrypt_def)
  show ?thesis
    using login_invalid_credentials
            [OF a b c, of 2000 "(''log-2'', 2001)" "''pw1''" 2000 "(''log-2'', 2001)"] a b c
    by simp
qed

section \<open>Watch page handlers\<close>

text \<open>
  C5. When the signed-in user is not the owner of the video shown, \<open>handleDelete\<close>
  raises the \<open>Permission denied\<close> notification and returns with the database as it
  was: \<open>getAllVideos\<close> answers what it answered before and still includes the video,
  unchanged.
\<close>

theorem handleDelete_non_owner:
  assumes "w_video w = Some v"
    and "u_id u \<noteq> v_userId v"
    and "store_get v_id (v_id v) (videos db) = Some v"
  shows "handleDelete (Some u) ok lstamp (w, db) =
           (w\<lparr>w_toasts := w_toasts w @ [ToastPermissionDenied]\<rparr>, db)
         \<and> getAllVideos (snd (handleDelete (Some u) ok lstamp (w, db))) = getAllVideos db
         \<and> v \<in> set (getAllVideos (snd (handleDelete (Some u) ok lstamp (w, db))))"
proof -
  have r: "handleDelete (Some u) ok lstamp (w, db) =
           (w\<lparr>w_toasts := w_toasts w @ [ToastPermissionDenied]\<rparr>, db)"
    using assms(1,2) by (simp add: handleDelete_def)
  have "v \<in> set (videos db)"
    using assms(3) by (auto simp: store_get_def find_Some_iff)
  then have "v \<in> set (getAllVideos db)"
    by (simp add: getAllVideos_def)
  with r show ?thesis by simp
qed

theorem handleDelete_non_owner_witness:
  "w_video watching = Some demo_video
   \<and> u_id bob \<noteq> v_userId demo_video
   \<and> store_get v_id (v_id demo_video) (videos video_db) = Some demo_video
   \<and> handleDelete (Some bob) True (''log-9'', 9000) (watching, video_db) =
       (watching\<lparr>w_toasts := [ToastPermissionDenied]\<rparr>, video_db)
   \<and> getAllVideos video_db = [demo_video]"
proof -
  have a: "w_video watching = Some demo_video" by (simp add: watching_def)
  have b: "u_id bob \<noteq> v_userId demo_video" by (simp add: bob_def demo_video_def)
  have c: "store_get v_id (v_id demo_video) (videos video_db) = Some demo_video"
    by (simp add: video_db_def store_get_def)
  have d: "getAllVideos video_db = [demo_video]"
    by (simp add: getAllVideos_def video_db_def)
  have e: "w_toasts watching = []" by (simp add: watching_def initial_watch_def)
  show ?thesis
    using handleDelete_non_owner[OF a b c, of True "(''log-9'', 9000)"] a b c d e by simp
qed

text \<open>
  C6, as the code has it. \<open>handleComment\<close> does nothing when the trimmed text is
  empty. Otherwise the record it stores is the video with one comment appended: the
  drawn id and time, the author's id and name, and the trimmed text. When the log can be
  added, the page's video is that record: one comment more, the last one carrying the
  trimmed text.
\<close>

theorem handleComment_appends:
  "(trim (w_comment w) = [] \<longrightarrow> handleComment user cstamp lstamp (w, db) = (None, w, db))
   \<and> (w_video w = Some v \<and> trim (w_comment w) \<noteq> [] \<longrightarrow>
        store_get v_id (v_id v)
          (videos (snd (snd (handleComment (Some u) cstamp lstamp (w, db))))) =
        Some (v\<lparr>v_comments := v_comments v @
                 [\<lparr> c_id = fst cstamp, c_userId = u_id u, c_username = u_username u,
                    c_text = trim (w_comment w), c_timestamp = snd cstamp \<rparr>]\<rparr>))
   \<and> (w_video w = Some v \<and> trim (w_comment w) \<noteq> []
        \<and> store_get l_id (fst lstamp) (logs db) = None \<longrightarrow>
        fst (handleComment (Some u) cstamp lstamp (w, db)) = None
        \<and> map_option (\<lambda>x. length (v_comments x))
             (w_video (fst (snd (handleComment (Some u) cstamp lstamp (w, db))))) =
           Some (length (v_comments v) + 1)
        \<and> map_option (\<lambda>x. c_text (last (v_comments x)))
             (w_video (fst (snd (handleComment (Some u) cstamp lstamp (w, db))))) =
           Some (trim (w_comment w)))"
proof (intro conjI impI)
  assume "trim (w_comment w) = []"
  then show "handleComment user cstamp lstamp (w, db) = (None, w, db)"
    by (simp add: handleComment_def split: option.splits)
next
  let ?v' = "v\<lparr>v_comments := v_comments v @
                 [\<lparr> c_id = fst cstamp, c_userId = u_id u, c_username = u_username u,
                    c_text = trim (w_comment w), c_timestamp = snd cstamp \<rparr>]\<rparr>"
  assume h: "w_video w = Some v \<and> trim (w_comment w) \<noteq> []"
  then have "videos (snd (snd (handleComment (Some u) cstamp lstamp (w, db)))) =
               videos (updateVideo ?v' db)"
    by (auto simp: handleComment_def Let_def dest: addLog_videos split: sum.splits)
  then show "store_get v_id (v_id v)
          (videos (snd (snd (handleComment (Some u) cstamp lstamp (w, db))))) = Some ?v'"
    using updateVideo_get_same[of ?v' db] by simp
next
  let ?v' = "v\<lparr>v_comments := v_comments v @
                 [\<lparr> c_id = fst cstamp, c_userId = u_id u, c_username = u_username u,
                    c_text = trim (w_comment w), c_timestamp = snd cstamp \<rparr>]\<rparr>"
  let ?e = "\<lparr> e_type = Comment, e_message = ''Commented on video: '' @ v_caption v,
              e_metadata = Some [(''videoId'', v_id v)] \<rparr>"
  assume h: "w_video w = Some v \<and> trim (w_comment w) \<noteq> []
        \<and> store_get l_id (fst lstamp) (logs db) = None"
  then obtain d where d: "addLog lstamp ?e (updateVideo ?v' db) = Inr d"
    using addLog_fresh[of lstamp "updateVideo ?v' db" ?e] by (auto simp: updateVideo_logs)
  have r: "handleComment (Some u) cstamp lstamp (w, db) =
          (None, w\<lparr>w_video := Some ?v', w_comment := [],
                   w_toasts := w_toasts w @ [ToastCommentPosted]\<rparr>, d)"
    using h d by (simp add: handleComment_def Let_def)
  show "fst (handleComment (Some u) cstamp lstamp (w, db)) = None"
    by (simp add: r)
  show "map_option (\<lambda>x. length (v_comments x))
             (w_video (fst (snd (handleComment (Some u) cstamp lstamp (w, db))))) =
           Some (length (v_comments v) + 1)"
    by (simp add: r)
  show "map_option (\<lambda>x. c_text (last (v_comments x)))
             (w_video (fst (snd (handleComment (Some u) cstamp lstamp (w, db))))) =
           Some (trim (w_comment w))"
    by (simp add: r)
qed

theorem handleComment_appends_witness:
  "trim [CHR 0x20, CHR 0x09, CHR 0x0A] = []
   \<and> handleComment (Some alice) (''c-1'', 5000) (''log-2'', 5001)
        (watching\<lparr>w_comment := [CHR 0x20, CHR 0x09, CHR 0x0A]\<rparr>, video_db) =
       (None, watching\<lparr>w_comment := [CHR 0x20, CHR 0x09, CHR 0x0A]\<rparr>, video_db)
   \<and> w_video (watching\<lparr>w_comment := ''  hello ''\<rparr>) = Some demo_video
   \<and> trim (w_comment (watching\<lparr>w_comment := ''  hello ''\<rparr>)) \<noteq> []
   \<and> store_get l_id ''log-2'' (logs video_db) = None
   \<and> store_get v_id ''vid-1''
        (videos (snd (snd (handleComment (Some alice) (''c-1'', 5000) (''log-2'', 5001)
                            (watching\<lparr>w_comment := ''  hello ''\<rparr>, video_db))))) =
       Some (demo_video\<lparr>v_comments :=
               [\<lparr> c_id = ''c-1'', c_userId = ''u-alice'', c_username = ''alice'',
                  c_text = ''hello'', c_timestamp = 5000 \<rparr>]\<rparr>)
   \<and> fst (handleComment (Some alice) (''c-1'', 5000) (''log-2'', 5001)
                            (watching\<lparr>w_comment := ''  hello ''\<rparr>, video_db)) = None
   \<and> map_option (\<lambda>x. length (v_comments x))
        (w_video (fst (snd (handleComment (Some alice) (''c-1'', 5000) (''log-2'', 5001)
                            (watching\<lparr>w_comment := ''  hello ''\<rparr>, video_db))))) = Some 1
   \<and> map_option (\<lambda>x. c_text (last (v_comments x)))
        (w_video (fst (snd (handleComment (Some alice) (''c-1'', 5000) (''log-2'', 5001)
                            (watching\<lparr>w_comment := ''  hello ''\<rparr>, video_db))))) = Some ''hello''"
proof -
  let ?blank = "watching\<lparr>w_comment := [CHR 0x20, CHR 0x09, CHR 0x0A]\<rparr>"
  let ?w = "watching\<lparr>w_comment := ''  hello ''\<rparr>"
  have a: "trim (w_comment ?blank) = []" using trim_blank by simp
  have b: "w_video ?w = Some demo_video" by (simp add: watching_def)
  have c: "trim (w_comment ?w) = ''hello''" using trim_hello by simp
  have d: "store_get l_id (fst (''log-2'', 5001::nat)) (logs video_db) = None"
    by (simp add: video_db_def alice_db_eq store_get_def)
  have i: "v_id demo_video = ''vid-1''" "v_comments demo_video = []"
    "u_id alice = ''u-alice''" "u_username alice = ''alice''"
    by (simp_all add: demo_video_def alice_def)
  note t1 = handleComment_appends[of ?blank "Some alice" "(''c-1'', 5000)" "(''log-2'', 5001)" video_db]
  note t2 = handleComment_appends[of ?w _ _ _ _ demo_video alice, where cstamp = "(''c-1'', 5000)" and lstamp = "(''log-2'', 5001)" and db = video_db]
  show ?thesis
    using t1 t2 a b c d i trim_blank by simp
qed

text \<open>
  C6 as stated fails on text with white space around it: the comment stored carries the
  trimmed text, not the text as posted.
\<close>

theorem handleComment_trims_counterexample:
  "trim ''  hello '' = ''hello''
   \<and> map (\<lambda>x. map c_text (v_comments x))
       (videos (snd (snd (handleComment (Some alice) (''c-1'', 5000) (''log-2'', 5001)
                            (watching\<lparr>w_comment := ''  hello ''\<rparr>, video_db))))) = [[''hello'']]
   \<and> ''hello'' \<noteq> ''  hello ''"
  by (simp add: trim_hello handleComment_def watching_def initial_watch_def video_db_def
      alice_db_eq demo_video_def updateVideo_def addLog_def store_add_def store_get_def
      Let_def alice_def)

text \<open>
  C9. On a page whose video is not yet liked, \<open>handleLike\<close> twice in a row (the log
  of the first call can be added) is a like followed by an unlike: after the first call
  the stored record has one like more, after the second the stored record is the video
  as it was, with its like count back at the original value.
\<close>

theorem handleLike_twice:
  assumes "w_video w = Some v"
    and "\<not> w_liked w"
    and "store_get l_id (fst s1) (logs db) = None"
    and "handleLike (Some u) s1 (w, db) = (e1, w1, db1)"
    and "handleLike (Some u) s2 (w1, db1) = (e2, w2, db2)"
  shows "w_liked w1
         \<and> store_get v_id (v_id v) (videos db1) = Some (v\<lparr>v_likes := v_likes v + 1\<rparr>)
         \<and> store_get v_id (v_id v) (videos db2) = Some v
         \<and> map_option v_likes (store_get v_id (v_id v) (videos db2)) = Some (v_likes v)"
proof -
  let ?v1 = "v\<lparr>v_likes := v_likes v + 1\<rparr>"
  let ?e1 = "\<lparr> e_type = Like, e_message = ''Liked'' @ '' video: '' @ v_caption v,
               e_metadata = Some [(''videoId'', v_id v)] \<rparr>"
  obtain d where d: "addLog s1 ?e1 (updateVideo ?v1 db) = Inr d"
    using addLog_fresh[of s1 "updateVideo ?v1 db" ?e1] assms(3) by (auto simp: updateVideo_logs)
  have first: "w1 = w\<lparr>w_video := Some ?v1, w_liked := True,
                      w_toasts := w_toasts w @ [ToastLiked]\<rparr>" "db1 = d"
    using assms(1,2,4) d by (simp_all add: handleLike_def Let_def)
  have s1: "store_get v_id (v_id v) (videos db1) = Some ?v1"
    using addLog_videos[OF d] updateVideo_get_same[of ?v1 db] first by simp
  have "videos db2 = videos (updateVideo v db1)"
    using assms(5) first
    by (auto simp: handleLike_def Let_def updateVideo_def dest: addLog_videos split: sum.splits)
  then have s2: "store_get v_id (v_id v) (videos db2) = Some v"
    using updateVideo_get_same[of v db1] by simp
  from first s1 s2 show ?thesis by simp
qed

theorem handleLike_twice_witness:
  "w_video watching = Some demo_video
   \<and> \<not> w_liked watching
   \<and> store_get l_id ''log-2'' (logs video_db) = None
   \<and> w_liked (fst (snd (handleLike (Some alice) (''log-2'', 2000) (watching, video_db))))
   \<and> store_get v_id ''vid-1''
        (videos (snd (snd (handleLike (Some alice) (''log-2'', 2000) (watching, video_db))))) =
       Some (demo_video\<lparr>v_likes := 1\<rparr>)
   \<and> store_get v_id ''vid-1''
        (videos (snd (snd (handleLike (Some alice) (''log-3'', 2001)
           (snd (handleLike (Some alice) (''log-2'', 2000) (watching, video_db))))))) =
       Some demo_video"
proof -
  obtain e1 w1 db1 where f: "handleLike (Some alice) (''log-2'', 2000) (watching, video_db) = (e1, w1, db1)"
    by (cases "handleLike (Some alice) (''log-2'', 2000) (watching, video_db)")
  obtain e2 w2 db2 where g: "handleLike (Some alice) (''log-3'', 2001) (w1, db1) = (e2, w2, db2)"
    by (cases "handleLike (Some alice) (''log-3'', 2001) (w1, db1)")
  have a: "w_video watching = Some demo_video" by (simp add: watching_def)
  have b: "\<not> w_liked watching" by (simp add: watching_def initial_watch_def)
  have c: "store_get l_id (fst (''log-2'', 2000::nat)) (logs video_db) = None"
    by (simp add: video_db_def alice_db_eq store_get_def)
  have i: "v_id demo_video = ''vid-1''" "v_likes demo_video = 0" by (simp_all add: demo_video_def)
  show ?thesis
    using handleLike_twice[OF a b c f g] a b c f g i by simp
qed

text \<open>
  C10. \<open>loadVideo\<close> on the id of a stored video replaces the stored record by the
  same record with \<open>views\<close> one higher, every other field as it was, and leaves the
  records of all other videos as they were.
\<close>

theorem loadVideo_only_views:
  assumes "distinct (map v_id (videos db))"
    and "store_get v_id vid (videos db) = Some v"
    and "vid \<noteq> []"
  shows "store_get v_id vid (videos (snd (loadVideo (Some vid) lstamp (w, db)))) =
           Some (v\<lparr>v_views := v_views v + 1\<rparr>)
         \<and> (\<forall>k. k \<noteq> vid \<longrightarrow>
               store_get v_id k (videos (snd (loadVideo (Some vid) lstamp (w, db)))) =
               store_get v_id k (videos db))"
proof -
  let ?v' = "v\<lparr>v_views := v_views v + 1\<rparr>"
  have idv: "v_id v = vid"
    using assms(2) by (auto simp: store_get_def find_Some_iff)
  have "find (\<lambda>x. v_id x = vid) (getAllVideos db) = Some v"
    using find_sort_key[OF assms(1), of vid "\<lambda>v. (v_uploadedAt v, v_id v)"] assms(2)
    by (simp add: getAllVideos_def store_get_def)
  then have "videos (snd (loadVideo (Some vid) lstamp (w, db))) = videos (updateVideo ?v' db)"
    using assms(3)
    by (auto simp: loadVideo_def Let_def dest: addLog_videos split: sum.splits)
  then show ?thesis
    using updateVideo_get_same[of ?v' db] updateVideo_get_other[of _ ?v' db] idv by simp
qed

theorem loadVideo_only_views_witness:
  "distinct (map v_id (videos video_db))
   \<and> store_get v_id ''vid-1'' (videos video_db) = Some demo_video
   \<and> ''vid-1'' \<noteq> []
   \<and> store_get v_id ''vid-1''
        (videos (snd (loadVideo (Some ''vid-1'') (''log-2'', 4000) (initial_watch, video_db)))) =
       Some (demo_video\<lparr>v_views := 1\<rparr>)
   \<and> store_get v_id ''vid-2''
        (videos (snd (loadVideo (Some ''vid-1'') (''log-2'', 4000) (initial_watch, video_db)))) =
       None"
proof -
  have a: "distinct (map v_id (videos video_db))" by (simp add: video_db_def)
  have b: "store_get v_id ''vid-1'' (videos video_db) = Some demo_video"
    by (simp add: video_db_def store_get_def demo_video_def)
  have c: "''vid-1'' \<noteq> []" by simp
  have d: "store_get v_id ''vid-2'' (videos video_db) = None"
    by (simp add: video_db_def store_get_def demo_video_def)
  have i: "v_views demo_video = 0" by (simp add: demo_video_def)
  show ?thesis
    using loadVideo_only_views[OF a b c, of "(''log-2'', 4000)" initial_watch] a b d i by simp
qed

section \<open>Local ingestion and playback\<close>

text \<open>
  C7, as the code has it. In demo mode, for a file the browser can decode,
  \<open>uploadVideoToCloudinary\<close> resolves with a response whose \<open>secure_url\<close> is
  \<open>local://local_\<close> followed by the time, and whose \<open>bytes\<close> is the file's size. When
  the put of the blob succeeded, \<open>resolveLocalUrl\<close> on a video with that URL, reading a
  blob store as the upload left it, creates the object URL of the very file uploaded: a
  blob of the file's size. When the put raised, the same response is returned and the
  database is as it was.
\<close>

theorem local_ingest_round_trip:
  assumes "probe file = Some m"
    and "uploadVideoToCloudinary remote probe writable now file db = (resp, reported, db')"
    and "videoBlobs (dbAt 1) = videoBlobs db'"
  shows "map_option secure_url resp = Some (''local://local_'' @ show_nat now)
         \<and> map_option bytes resp = Some (b_size file)
         \<and> (\<forall>url. map_option secure_url resp = Some url \<longrightarrow> startsWith ''local://'' url)
         \<and> (writable \<longrightarrow>
              (\<forall>v. map_option secure_url resp = Some (v_cloudinaryUrl v) \<longrightarrow>
                 rr_objectUrl (resolveLocalUrl dbAt mounted (Some v)) = Some file
                 \<and> map_option b_size (rr_objectUrl (resolveLocalUrl dbAt mounted (Some v))) =
                     Some (b_size file)))
         \<and> (\<not> writable \<longrightarrow> db' = db)"
proof -
  let ?pid = "''local_'' @ show_nat now"
  have r: "map_option secure_url resp = Some (''local://'' @ ?pid)"
    "map_option bytes resp = Some (b_size file)"
    "db' = (case saveVideoBlob writable ?pid file db of Inl e \<Rightarrow> db | Inr stored \<Rightarrow> stored)"
    using assms(1,2)
    by (auto simp: uploadVideoToCloudinary_def isDemoMode_holds mockUpload_def Let_def)
  have lost: "db' = db" if "\<not> writable"
    using that r(3) by (simp add: saveVideoBlob_def)
  have res: "rr_objectUrl (resolveLocalUrl dbAt mounted (Some v)) = Some file"
    if w: "writable" and u: "v_cloudinaryUrl v = ''local://'' @ ?pid" for v
  proof -
    have "saveVideoBlob True ?pid file db = Inr db'"
      using w r(3) by (simp add: saveVideoBlob_def)
    then have "getVideoBlob ?pid db' = Some file"
      by (rule getVideoBlob_saved)
    then have g: "getVideoBlob ?pid (dbAt 1) = Some file"
      using assms(3) by (simp add: getVideoBlob_def)
    have s: "startsWith ''local://'' (v_cloudinaryUrl v)"
      using u startsWith_append[of "''local://''" "''local_'' @ show_nat now"] by simp
    have p: "replace_first ''local://'' [] (v_cloudinaryUrl v) = ?pid"
      using replace_first_prefix[OF s, of "[]"] u by simp
    show ?thesis
      unfolding resolveLocalUrl_def Let_def fetch_blob_3
      using s p g by simp
  qed
  show ?thesis
    using r(1,2) res lost startsWith_append[of "''local://''" "''local_'' @ show_nat now"]
    by auto
qed

theorem local_ingest_round_trip_witness:
  "uploadVideoToCloudinary (\<lambda>f d. (None, [], d)) (\<lambda>f. Some demo_media) True 1700 demo_file
     alice_db =
     (Some \<lparr> secure_url = ''local://local_1700'', public_id = ''local_1700'',
              format = ''mp4'', duration = 12, width = 640, height = 360, bytes = 8,
              thumbnail_url = ''data:image/jpeg;base64,AAAA'' \<rparr>,
      [10, 20, 30, 40, 50, 60, 70, 80, 90, 100],
      alice_db\<lparr>videoBlobs := [(''local_1700'', demo_file)]\<rparr>)
   \<and> videoBlobs video_db = videoBlobs (alice_db\<lparr>videoBlobs := [(''local_1700'', demo_file)]\<rparr>)
   \<and> startsWith ''local://'' ''local://local_1700''
   \<and> v_cloudinaryUrl demo_video = ''local://local_1700''
   \<and> rr_objectUrl (resolveLocalUrl (\<lambda>attempt. video_db) True (Some demo_video)) = Some demo_file
   \<and> b_size demo_file = 8
   \<and> snd (snd (uploadVideoToCloudinary (\<lambda>f d. (None, [], d)) (\<lambda>f. Some demo_media) False 1700
                  demo_file alice_db)) = alice_db"
proof -
  let ?resp = "\<lparr> secure_url = ''local://local_1700'', public_id = ''local_1700'',
              format = ''mp4'', duration = 12, width = 640, height = 360, bytes = 8,
              thumbnail_url = ''data:image/jpeg;base64,AAAA'' \<rparr>"
  have p: "(\<lambda>f. Some demo_media) demo_file = Some demo_media" by simp
  have u: "uploadVideoToCloudinary (\<lambda>f d. (None, [], d)) (\<lambda>f. Some demo_media) True 1700
             demo_file alice_db =
     (Some ?resp, [10, 20, 30, 40, 50, 60, 70, 80, 90, 100],
      alice_db\<lparr>videoBlobs := [(''local_1700'', demo_file)]\<rparr>)"
    by (simp add: uploadVideoToCloudinary_def isDemoMode_holds mockUpload_def Let_def
        progress_ticks_0 show_nat_1700 demo_media_def demo_file_def b_size_def
        saveVideoBlob_def alice_db_eq)
  have b: "videoBlobs ((\<lambda>attempt. video_db) (1::nat)) =
             videoBlobs (alice_db\<lparr>videoBlobs := [(''local_1700'', demo_file)]\<rparr>)"
    by (simp add: video_db_def)
  obtain resp' reported' db' where
    u': "uploadVideoToCloudinary (\<lambda>f d. (None, [], d)) (\<lambda>f. Some demo_media) False 1700
           demo_file alice_db = (resp', reported', db')"
    by (cases "uploadVideoToCloudinary (\<lambda>f d. (None, [], d)) (\<lambda>f. Some demo_media) False 1700
           demo_file alice_db")
  have b': "videoBlobs ((\<lambda>attempt. db') (1::nat)) = videoBlobs db'" by simp
  have i: "v_cloudinaryUrl demo_video = ''local://local_1700''" "b_size demo_file = 8"
    by (simp_all add: demo_video_def demo_file_def b_size_def)
  show ?thesis
    using local_ingest_round_trip[OF p u b, of True]
      local_ingest_round_trip[OF p u' b', of True] u u' b i show_nat_1700
    by simp
qed

text \<open>
  C7 as stated fails when the browser has no room for the blob: the put raises, the
  \<open>catch\<close> swallows it, the upload still resolves with the local URI, and playback of
  that URI finds no blob in any of its three attempts.
\<close>

theorem local_ingest_lost_blob_counterexample:
  "uploadVideoToCloudinary (\<lambda>f d. (None, [], d)) (\<lambda>f. Some demo_media) False 1700 demo_file
     alice_db =
     (Some \<lparr> secure_url = ''local://local_1700'', public_id = ''local_1700'',
              format = ''mp4'', duration = 12, width = 640, height = 360, bytes = 8,
              thumbnail_url = ''data:image/jpeg;base64,AAAA'' \<rparr>,
      [10, 20, 30, 40, 50, 60, 70, 80, 90, 100],
      alice_db)
   \<and> b_size demo_file = 8
   \<and> v_cloudinaryUrl demo_video = ''local://local_1700''
   \<and> resolveLocalUrl (\<lambda>attempt. alice_db) True (Some demo_video) =
        \<lparr> rr_objectUrl = None, rr_src = None, rr_videoError = Some True,
          rr_toast = Some ToastVideoNotAvailable, rr_waits = [250, 500, 750] \<rparr>"
proof -
  have u: "uploadVideoToCloudinary (\<lambda>f d. (None, [], d)) (\<lambda>f. Some demo_media) False 1700
             demo_file alice_db =
     (Some \<lparr> secure_url = ''local://local_1700'', public_id = ''local_1700'',
              format = ''mp4'', duration = 12, width = 640, height = 360, bytes = 8,
              thumbnail_url = ''data:image/jpeg;base64,AAAA'' \<rparr>,
      [10, 20, 30, 40, 50, 60, 70, 80, 90, 100],
      alice_db)"
    by (simp add: uploadVideoToCloudinary_def isDemoMode_holds mockUpload_def Let_def
        progress_ticks_0 show_nat_1700 demo_media_def demo_file_def b_size_def
        saveVideoBlob_def)
  have i: "v_cloudinaryUrl demo_video = ''local://local_1700''" "b_size demo_file = 8"
    by (simp_all add: demo_video_def demo_file_def b_size_def)
  have s: "startsWith ''local://'' (v_cloudinaryUrl demo_video)"
    by (simp add: demo_video_def startsWith_def)
  have p: "replace_first ''local://'' [] (v_cloudinaryUrl demo_video) = ''local_1700''"
    by (simp add: demo_video_def startsWith_def)
  have n: "getVideoBlob ''local_1700'' alice_db = None"
    by (simp add: getVideoBlob_def alice_db_eq store_get_def)
  have r: "resolveLocalUrl (\<lambda>attempt. alice_db) True (Some demo_video) =
        \<lparr> rr_objectUrl = None, rr_src = None, rr_videoError = Some True,
          rr_toast = Some ToastVideoNotAvailable, rr_waits = [250, 500, 750] \<rparr>"
    unfolding resolveLocalUrl_def Let_def fetch_blob_3
    using s p n by simp
  show ?thesis using u i r by simp
qed

text \<open>
  C8. \<open>resolveLocalUrl\<close> uses a URL outside the local scheme as the source directly,
  without reading the store. For a local URL it strips the scheme and reads the blob
  store at most three times, waiting 250, 500 and 750 ms after a miss: the delays are at
  most three and strictly increasing. Only after three misses does it set the error
  state and raise \<open>Video not available\<close>; a blob found at the first, second or third
  attempt becomes the source, after the delays of the misses before it.
\<close>

theorem resolveLocalUrl_retries:
  "(\<not> startsWith ''local://'' (v_cloudinaryUrl v) \<longrightarrow>
      resolveLocalUrl dbAt mounted (Some v) =
        \<lparr> rr_objectUrl = None,
          rr_src = (if mounted then Some (Url (v_cloudinaryUrl v)) else None),
          rr_videoError = None, rr_toast = None, rr_waits = [] \<rparr>)
   \<and> (v_cloudinaryUrl v = ''local://'' @ publicId \<longrightarrow>
        length (rr_waits (resolveLocalUrl dbAt mounted (Some v))) \<le> 3
        \<and> sorted_wrt (<) (rr_waits (resolveLocalUrl dbAt mounted (Some v))))
   \<and> (v_cloudinaryUrl v = ''local://'' @ publicId
        \<and> getVideoBlob publicId (dbAt 1) = None
        \<and> getVideoBlob publicId (dbAt 2) = None
        \<and> getVideoBlob publicId (dbAt 3) = None \<longrightarrow>
        resolveLocalUrl dbAt mounted (Some v) =
          \<lparr> rr_objectUrl = None, rr_src = None, rr_videoError = Some True,
            rr_toast = Some ToastVideoNotAvailable, rr_waits = [250, 500, 750] \<rparr>)
   \<and> (v_cloudinaryUrl v = ''local://'' @ publicId
        \<and> k \<in> {1, 2, 3}
        \<and> getVideoBlob publicId (dbAt k) = Some b
        \<and> (\<forall>j. 1 \<le> j \<and> j < k \<longrightarrow> getVideoBlob publicId (dbAt j) = None) \<longrightarrow>
        resolveLocalUrl dbAt mounted (Some v) =
          \<lparr> rr_objectUrl = Some b,
            rr_src = (if mounted then Some (ObjectUrl b) else None),
            rr_videoError = Some False, rr_toast = None,
            rr_waits = map (\<lambda>attempt. 250 * attempt) [1..<k] \<rparr>)"
proof -
  have direct: "resolveLocalUrl dbAt mounted (Some v) =
        \<lparr> rr_objectUrl = None,
          rr_src = (if mounted then Some (Url (v_cloudinaryUrl v)) else None),
          rr_videoError = None, rr_toast = None, rr_waits = [] \<rparr>"
    if "\<not> startsWith ''local://'' (v_cloudinaryUrl v)"
    using that by (simp add: resolveLocalUrl_def)
  have unfolded: "resolveLocalUrl dbAt mounted (Some v) =
      (case fetch_blob dbAt publicId 3 1 of
         (Some b, waits) \<Rightarrow>
            \<lparr> rr_objectUrl = Some b,
              rr_src = (if mounted then Some (ObjectUrl b) else None),
              rr_videoError = Some False, rr_toast = None, rr_waits = waits \<rparr>
       | (None, waits) \<Rightarrow>
            \<lparr> rr_objectUrl = None, rr_src = None, rr_videoError = Some True,
              rr_toast = Some ToastVideoNotAvailable, rr_waits = waits \<rparr>)"
    if u: "v_cloudinaryUrl v = ''local://'' @ publicId"
  proof -
    have s: "startsWith ''local://'' (v_cloudinaryUrl v)"
      using u startsWith_append[of "''local://''" publicId] by simp
    have p: "replace_first ''local://'' [] (v_cloudinaryUrl v) = publicId"
      using replace_first_prefix[OF s, of "[]"] u by simp
    show ?thesis
      unfolding resolveLocalUrl_def Let_def using s p by simp
  qed
  have bounds: "length (rr_waits (resolveLocalUrl dbAt mounted (Some v))) \<le> 3
        \<and> sorted_wrt (<) (rr_waits (resolveLocalUrl dbAt mounted (Some v)))"
    if u: "v_cloudinaryUrl v = ''local://'' @ publicId"
    unfolding unfolded[OF u] fetch_blob_3 by (simp split: option.splits)
  have missing: "resolveLocalUrl dbAt mounted (Some v) =
          \<lparr> rr_objectUrl = None, rr_src = None, rr_videoError = Some True,
            rr_toast = Some ToastVideoNotAvailable, rr_waits = [250, 500, 750] \<rparr>"
    if u: "v_cloudinaryUrl v = ''local://'' @ publicId"
      and m: "getVideoBlob publicId (dbAt 1) = None" "getVideoBlob publicId (dbAt 2) = None"
        "getVideoBlob publicId (dbAt 3) = None"
    unfolding unfolded[OF u] fetch_blob_3 m by simp
  have found: "resolveLocalUrl dbAt mounted (Some v) =
          \<lparr> rr_objectUrl = Some b,
            rr_src = (if mounted then Some (ObjectUrl b) else None),
            rr_videoError = Some False, rr_toast = None,
            rr_waits = map (\<lambda>attempt. 250 * attempt) [1..<k] \<rparr>"
    if u: "v_cloudinaryUrl v = ''local://'' @ publicId"
      and k: "k \<in> {1, 2, 3}"
      and f: "getVideoBlob publicId (dbAt k) = Some b"
      and e: "\<forall>j. 1 \<le> j \<and> j < k \<longrightarrow> getVideoBlob publicId (dbAt j) = None"
  proof -
    consider "k = 1" | "k = 2" | "k = 3" using k by auto
    then show ?thesis
    proof cases
      case 1
      have r: "[1..<k] = []" using 1 by simp
      have g: "getVideoBlob publicId (dbAt 1) = Some b" using f 1 by simp
      show ?thesis unfolding unfolded[OF u] fetch_blob_3 g r by simp
    next
      case 2
      have r: "[1..<k] = [1]" using 2 by (simp add: upt_rec)
      have g: "getVideoBlob publicId (dbAt 1) = None" "getVideoBlob publicId (dbAt 2) = Some b"
        using f e 2 by simp_all
      show ?thesis unfolding unfolded[OF u] fetch_blob_3 g r by simp
    next
      case 3
      have r: "[1..<k] = [1, 2]" using 3 by (simp add: upt_rec)
      have g: "getVideoBlob publicId (dbAt 1) = None" "getVideoBlob publicId (dbAt 2) = None"
        "getVideoBlob publicId (dbAt 3) = Some b"
        using f e 3 by simp_all
      show ?thesis unfolding unfolded[OF u] fetch_blob_3 g r by simp
    qed
  qed
  show ?thesis
    using direct bounds missing found by blast
qed

theorem resolveLocalUrl_retries_witness:
  "\<not> startsWith ''local://'' (v_cloudinaryUrl remote_video)
   \<and> resolveLocalUrl (\<lambda>attempt. video_db) True (Some remote_video) =
        \<lparr> rr_objectUrl = None,
          rr_src = Some (Url ''https://res.cloudinary.com/demo/video/upload/clip.mp4''),
          rr_videoError = None, rr_toast = None, rr_waits = [] \<rparr>
   \<and> v_cloudinaryUrl demo_video = ''local://'' @ ''local_1700''
   \<and> getVideoBlob ''local_1700'' alice_db = None
   \<and> resolveLocalUrl (\<lambda>attempt. alice_db) True (Some demo_video) =
        \<lparr> rr_objectUrl = None, rr_src = None, rr_videoError = Some True,
          rr_toast = Some ToastVideoNotAvailable, rr_waits = [250, 500, 750] \<rparr>
   \<and> getVideoBlob ''local_1700'' video_db = Some demo_file
   \<and> resolveLocalUrl (\<lambda>attempt. if attempt < 3 then alice_db else video_db) True
        (Some demo_video) =
        \<lparr> rr_objectUrl = Some demo_file, rr_src = Some (ObjectUrl demo_file),
          rr_videoError = Some False, rr_toast = None, rr_waits = [250, 500] \<rparr>
   \<and> length (rr_waits (resolveLocalUrl (\<lambda>attempt. alice_db) True (Some demo_video))) \<le> 3"
proof -
  let ?late = "\<lambda>attempt::nat. if attempt < 3 then alice_db else video_db"
  have a: "\<not> startsWith ''local://'' (v_cloudinaryUrl remote_video)"
    by (simp add: remote_video_def demo_video_def startsWith_def)
  have u: "v_cloudinaryUrl demo_video = ''local://'' @ ''local_1700''"
    by (simp add: demo_video_def)
  have n: "getVideoBlob ''local_1700'' alice_db = None"
    by (simp add: getVideoBlob_def alice_db_eq store_get_def)
  have f: "getVideoBlob ''local_1700'' video_db = Some demo_file"
    by (simp add: getVideoBlob_def video_db_def store_get_def)
  have k: "(3::nat) \<in> {1, 2, 3}" by simp
  have f3: "getVideoBlob ''local_1700'' (?late 3) = Some demo_file" using f by simp
  have e3: "\<forall>j. 1 \<le> j \<and> j < 3 \<longrightarrow> getVideoBlob ''local_1700'' (?late j) = None"
    using n by simp
  have r: "map (\<lambda>attempt. 250 * attempt) [1..<3] = [250, 500::nat]"
    by (simp add: upt_rec)
  have i: "v_cloudinaryUrl remote_video =
             ''https://res.cloudinary.com/demo/video/upload/clip.mp4''"
    by (simp add: remote_video_def)
  note t1 = resolveLocalUrl_retries[where v = remote_video and dbAt = "\<lambda>attempt. video_db"
      and mounted = True]
  note t2 = resolveLocalUrl_retries[where v = demo_video and publicId = "''local_1700''"
      and dbAt = "\<lambda>attempt. alice_db" and mounted = True]
  note t3 = resolveLocalUrl_retries[where v = demo_video and publicId = "''local_1700''"
      and dbAt = ?late and mounted = True and k = 3 and b = demo_file]
  have p1: "resolveLocalUrl (\<lambda>attempt. video_db) True (Some remote_video) =
        \<lparr> rr_objectUrl = None,
          rr_src = Some (Url ''https://res.cloudinary.com/demo/video/upload/clip.mp4''),
          rr_videoError = None, rr_toast = None, rr_waits = [] \<rparr>"
    using t1 a i by simp
  have p2: "resolveLocalUrl (\<lambda>attempt. alice_db) True (Some demo_video) =
        \<lparr> rr_objectUrl = None, rr_src = None, rr_videoError = Some True,
          rr_toast = Some ToastVideoNotAvailable, rr_waits = [250, 500, 750] \<rparr>"
    using t2 u n by simp
  have p3: "resolveLocalUrl ?late True (Some demo_video) =
        \<lparr> rr_objectUrl = Some demo_file, rr_src = Some (ObjectUrl demo_file),
          rr_videoError = Some False, rr_toast = None, rr_waits = [250, 500] \<rparr>"
    using t3 u k f3 e3 r by simp
  show ?thesis
    using a u n f p1 p2 p3 by simp
qed

end
